theory Spec2Isabelle
  imports Complex_Main "HOL-Library.Sublist"
begin

section \<open>Python strings and lists\<close>

text \<open>
  A Python \<open>str\<close> is a sequence of Unicode code points, modelled as a list of
  natural numbers; \<open>str\<close> turns an ASCII literal into such a list.

  \<open>s.lower()\<close> has two paths in the interpreter. On a string of ASCII characters only
  it maps \<open>A..Z\<close> to \<open>a..z\<close> and leaves the rest alone. On any other string it works
  from the case tables of the Unicode database, which are not part of the program:
  that path is the parameter \<open>unicode_lower\<close> of every function that lower-cases, and
  what is proved below holds whatever it returns.

  \<open>s.strip()\<close> removes the white space at both ends; \<open>whitespace\<close> lists the code
  points that count as white space for a \<open>str\<close>, the ASCII ones and the others.
\<close>

type_synonym py_str = "nat list"

definition str :: "string \<Rightarrow> py_str" where
  "str s = map of_char s"

definition is_ascii :: "py_str \<Rightarrow> bool" where
  "is_ascii s = list_all (\<lambda>c. c < 128) s"

definition ascii_lower :: "nat \<Rightarrow> nat" where
  "ascii_lower c = (if 65 \<le> c \<and> c \<le> 90 then c + 32 else c)"

definition lower :: "(py_str \<Rightarrow> py_str) \<Rightarrow> py_str \<Rightarrow> py_str" where
  "lower unicode_lower s = (if is_ascii s then map ascii_lower s else unicode_lower s)"

text \<open>
  An instance of the parameter, for the examples: what \<open>lower\<close> does on text whose
  code points are all below 256. There the capital letters are \<open>A..Z\<close> and
  \<open>U+00C0..U+00DE\<close> without the multiplication sign \<open>U+00D7\<close>, and each is 32 below
  its small letter.
\<close>

definition latin1_lower_char :: "nat \<Rightarrow> nat" where
  "latin1_lower_char c =
     (if (65 \<le> c \<and> c \<le> 90) \<or> (192 \<le> c \<and> c \<le> 222 \<and> c \<noteq> 215) then c + 32 else c)"

definition latin1_lower :: "py_str \<Rightarrow> py_str" where
  "latin1_lower s = map latin1_lower_char s"

definition whitespace :: "nat list" where
  "whitespace =
     [0x09, 0x0A, 0x0B, 0x0C, 0x0D, 0x1C, 0x1D, 0x1E, 0x1F, 0x20, 0x85, 0xA0, 0x1680,
      0x2000, 0x2001, 0x2002, 0x2003, 0x2004, 0x2005, 0x2006, 0x2007, 0x2008, 0x2009, 0x200A,
      0x2028, 0x2029, 0x202F, 0x205F, 0x3000]"

definition isspace :: "nat \<Rightarrow> bool" where
  "isspace c = (c \<in> set whitespace)"

definition lstrip :: "py_str \<Rightarrow> py_str" where
  "lstrip s = dropWhile isspace s"

definition rstrip :: "py_str \<Rightarrow> py_str" where
  "rstrip s = rev (dropWhile isspace (rev s))"

definition strip :: "py_str \<Rightarrow> py_str" where
  "strip s = rstrip (lstrip s)"

text \<open>The substring test \<open>sub in s\<close>.\<close>

fun py_in :: "py_str \<Rightarrow> py_str \<Rightarrow> bool" where
  "py_in sub [] = (sub = [])"
| "py_in sub (c # cs) = (prefix sub (c # cs) \<or> py_in sub cs)"

text \<open>
  \<open>s.replace(old, new)\<close>: the occurrences of \<open>old\<close> are found from the left and do
  not overlap; an empty \<open>old\<close> matches before every character and at the end.
\<close>

function replace :: "py_str \<Rightarrow> py_str \<Rightarrow> py_str \<Rightarrow> py_str" where
  "replace old new [] = (if old = [] then new else [])"
| "replace old new (c # cs) =
     (if old = [] then new @ c # replace old new cs
      else if prefix old (c # cs) then new @ replace old new (drop (length old) (c # cs))
      else c # replace old new cs)"
  by pat_completeness auto
termination
  by (relation "measure (\<lambda>(old, new, s). length s)") auto

section \<open>The voice command transform\<close>

definition process_command :: "(py_str \<Rightarrow> py_str) \<Rightarrow> py_str \<Rightarrow> py_str" where
  "process_command unicode_lower command0 =
     (let command = strip (lower unicode_lower command0) in
      if py_in (str ''add'') command then strip (replace (str ''add'') [] command)
      else if py_in (str ''delete'') command then []
      else if py_in (str ''html'') command
        then str ''<p>'' @ strip (replace (str ''html'') [] command) @ str ''</p>''
      else if py_in (str ''php'') command
        then str (''<?php echo '' @ [CHR 0x27]) @ strip (replace (str ''php'') [] command) @
          str ([CHR 0x27] @ ''; ?>'')
      else if py_in (str ''bold'') command
        then str ''**'' @ strip (replace (str ''bold'') [] command) @ str ''**''
      else if py_in (str ''italic'') command
        then str ''*'' @ strip (replace (str ''italic'') [] command) @ str ''*''
      else command)"

text \<open>
  List indexing \<open>xs[i]\<close> (a negative index counts from the end, an index out of range
  raises \<open>IndexError\<close>) and the slice \<open>xs[:k]\<close> (a negative bound counts from the end,
  a bound out of range is clipped). The other errors are what a library call of a
  handler can raise: the file system, the decoding of a file, anything else.
\<close>

datatype py_error = IndexError | OSError | UnicodeDecodeError | OtherException

definition py_index :: "'a list \<Rightarrow> int \<Rightarrow> py_error + 'a" where
  "py_index xs i =
     (let n = int (length xs) in
      if 0 \<le> i \<and> i < n then Inr (xs ! nat i)
      else if - n \<le> i \<and> i < 0 then Inr (xs ! nat (n + i))
      else Inl IndexError)"

definition py_slice_to :: "'a list \<Rightarrow> int \<Rightarrow> 'a list" where
  "py_slice_to xs k = (if 0 \<le> k then take (nat k) xs else take (nat (int (length xs) + k)) xs)"

section \<open>The sentiment tone\<close>

text \<open>
  \<open>analyze_sentiment\<close> reads polarity and subjectivity from the sentiment library and
  derives the tone. A polarity is the real number a Python float denotes; the float
  literal \<open>0.1\<close> denotes the double nearest to one tenth, \<open>3602879701896397 / 2 ^ 55\<close>.
  The three labels of the source end in an emoji each, which the constructors leave out.
\<close>

datatype tone = Positive | Negative | Neutral

definition float_0_1 :: real where
  "float_0_1 = 3602879701896397 / 2 ^ 55"

definition tone_of :: "real \<Rightarrow> tone" where
  "tone_of polarity =
     (if polarity > float_0_1 then Positive
      else if polarity < - float_0_1 then Negative
      else Neutral)"

definition analyze_sentiment :: "(py_str \<Rightarrow> real \<times> real) \<Rightarrow> py_str \<Rightarrow> real \<times> real \<times> tone" where
  "analyze_sentiment sentiment txt =
     (let polarity = fst (sentiment txt); subjectivity = snd (sentiment txt)
      in (polarity, subjectivity, tone_of polarity))"

section \<open>Translation\<close>

text \<open>
  The translator is a parameter: it returns the translated text or raises. What it
  raises is either an instance of \<open>Exception\<close>, which the \<open>except Exception\<close> clause
  of \<open>translate_text\<close> catches, or one of the few other \<open>BaseException\<close>s (an interrupt,
  an exit), which it lets through.
\<close>

datatype raised = Exception py_str | BaseException py_str

definition translate_text ::
  "(py_str \<Rightarrow> py_str \<Rightarrow> raised + py_str) \<Rightarrow> py_str \<Rightarrow> py_str \<Rightarrow> raised + py_str" where
  "translate_text translate txt dest_lang_code =
     (case translate txt dest_lang_code of
        Inr translated \<Rightarrow> Inr translated
      | Inl (Exception e) \<Rightarrow> Inr txt
      | Inl (BaseException b) \<Rightarrow> Inl (BaseException b))"

section \<open>The session state and its handlers\<close>

text \<open>
  \<open>st.session_state\<close> holds \<open>text\<close>, \<open>history\<close> and \<open>current_index\<close>; the field \<open>text\<close>
  is called \<open>text_s\<close> here.
\<close>

record session =
  text_s :: py_str
  history :: "py_str list"
  current_index :: int

definition init :: session where
  "init = \<lparr>text_s = [], history = [], current_index = - 1\<rparr>"

definition save_to_history :: "session \<Rightarrow> session" where
  "save_to_history s =
     s\<lparr>history := py_slice_to (history s) (current_index s + 1) @ [text_s s],
       current_index := current_index s + 1\<rparr>"

text \<open>
  The handlers of the buttons and of the text area. A handler that can raise returns
  \<open>Inl\<close> with the error and the session state the raise leaves behind.
  \<open>start_dictation\<close> takes what \<open>recognize_speech_from_mic\<close> returned (the empty string
  when recognition failed) and \<open>text_area_change\<close> the value of the text area.
  \<open>load_from_file\<close> takes what the file system answers: the file does not exist, or
  opening, reading or decoding it raises, or it is read.
\<close>

definition start_dictation :: "(py_str \<Rightarrow> py_str) \<Rightarrow> py_str \<Rightarrow> session \<Rightarrow> session" where
  "start_dictation unicode_lower result s =
     (if result \<noteq> []
      then save_to_history (s\<lparr>text_s := text_s s @ process_command unicode_lower result\<rparr>)
      else s)"

definition clear_text :: "session \<Rightarrow> session" where
  "clear_text s = s\<lparr>text_s := [], history := [], current_index := - 1\<rparr>"

definition undo :: "session \<Rightarrow> py_error \<times> session + session" where
  "undo s =
     (if current_index s > 0 then
        (let s1 = s\<lparr>current_index := current_index s - 1\<rparr> in
         case py_index (history s1) (current_index s1) of
           Inl e \<Rightarrow> Inl (e, s1)
         | Inr t \<Rightarrow> Inr (s1\<lparr>text_s := t\<rparr>))
      else Inr s)"

definition redo :: "session \<Rightarrow> py_error \<times> session + session" where
  "redo s =
     (if current_index s < int (length (history s)) - 1 then
        (let s1 = s\<lparr>current_index := current_index s + 1\<rparr> in
         case py_index (history s1) (current_index s1) of
           Inl e \<Rightarrow> Inl (e, s1)
         | Inr t \<Rightarrow> Inr (s1\<lparr>text_s := t\<rparr>))
      else Inr s)"

datatype file_read = NotFound | ReadRaises py_error | Contents py_str

definition load_from_file :: "file_read \<Rightarrow> session \<Rightarrow> py_error \<times> session + session" where
  "load_from_file answer s =
     (case answer of
        NotFound \<Rightarrow> Inr s
      | ReadRaises e \<Rightarrow> Inl (e, s)
      | Contents contents \<Rightarrow> Inr (s\<lparr>text_s := contents\<rparr>))"

definition text_area_change :: "py_str \<Rightarrow> session \<Rightarrow> session" where
  "text_area_change text_area s =
     (if text_s s \<noteq> text_area then save_to_history (s\<lparr>text_s := text_area\<rparr>) else s)"

text \<open>
  One user action. The buttons that only read the state (save to file, sentiment, tags,
  preview, translate) are \<open>ReadOnly\<close> when their library calls return.
  \<open>LibraryRaises\<close> is a button whose library call raises before the handler has
  written the state: the microphone or the speech service of the dictation (apart from
  the two errors \<open>recognize_speech_from_mic\<close> catches), the writing of the file, the
  sentiment or the tagging library.
\<close>

datatype event =
    Dictation py_str
  | Clear
  | Undo
  | Redo
  | LoadFile file_read
  | TextArea py_str
  | ReadOnly
  | LibraryRaises py_error

fun handle ::
  "(py_str \<Rightarrow> py_str) \<Rightarrow> event \<Rightarrow> session \<Rightarrow> py_error \<times> session + session" where
  "handle unicode_lower (Dictation result) s = Inr (start_dictation unicode_lower result s)"
| "handle unicode_lower Clear s = Inr (clear_text s)"
| "handle unicode_lower Undo s = undo s"
| "handle unicode_lower Redo s = redo s"
| "handle unicode_lower (LoadFile answer) s = load_from_file answer s"
| "handle unicode_lower (TextArea text_area) s = Inr (text_area_change text_area s)"
| "handle unicode_lower ReadOnly s = Inr s"
| "handle unicode_lower (LibraryRaises e) s = Inl (e, s)"

text \<open>The session state after a handler, raised or not.\<close>

fun state_after :: "py_error \<times> session + session \<Rightarrow> session" where
  "state_after (Inl (e, s)) = s"
| "state_after (Inr s) = s"

fun run :: "(py_str \<Rightarrow> py_str) \<Rightarrow> session \<Rightarrow> event list \<Rightarrow> session" where
  "run unicode_lower s [] = s"
| "run unicode_lower s (ev # evs) =
     run unicode_lower (state_after (handle unicode_lower ev s)) evs"

inductive reachable :: "(py_str \<Rightarrow> py_str) \<Rightarrow> session \<Rightarrow> bool"
  for unicode_lower :: "py_str \<Rightarrow> py_str" where
  reachable_init: "reachable unicode_lower init"
| reachable_step:
    "reachable unicode_lower s \<Longrightarrow>
       reachable unicode_lower (state_after (handle unicode_lower ev s))"

text \<open>The invariant of the pointer into the history.\<close>

definition index_inv :: "session \<Rightarrow> bool" where
  "index_inv s =
     (if history s = [] then current_index s = - 1
      else 0 \<le> current_index s \<and> current_index s < int (length (history s)))"

text \<open>
  A change is committed when the handler has written the history or moved the pointer
  and the history is not empty; then the text shown must be the snapshot the pointer
  selects.
\<close>

definition committed :: "session \<Rightarrow> session \<Rightarrow> bool" where
  "committed s s' =
     ((history s' \<noteq> history s \<or> current_index s' \<noteq> current_index s) \<and> history s' \<noteq> []
      \<longrightarrow> py_index (history s') (current_index s') = Inr (text_s s'))"

section \<open>The command keywords in their order of priority\<close>

text \<open>
  \<open>command_keywords\<close> lists the keywords in the order in which \<open>process_command\<close>
  tests them, and \<open>branch\<close> is what the branch of a keyword returns.
\<close>

definition command_keywords :: "py_str list" where
  "command_keywords =
     [str ''add'', str ''delete'', str ''html'', str ''php'', str ''bold'', str ''italic'']"

definition branch :: "py_str \<Rightarrow> py_str \<Rightarrow> py_str" where
  "branch keyword command =
     (if keyword = str ''add'' then strip (replace (str ''add'') [] command)
      else if keyword = str ''delete'' then []
      else if keyword = str ''html''
        then str ''<p>'' @ strip (replace (str ''html'') [] command) @ str ''</p>''
      else if keyword = str ''php''
        then str (''<?php echo '' @ [CHR 0x27]) @ strip (replace (str ''php'') [] command) @
          str ([CHR 0x27] @ ''; ?>'')
      else if keyword = str ''bold''
        then str ''**'' @ strip (replace (str ''bold'') [] command) @ str ''**''
      else str ''*'' @ strip (replace (str ''italic'') [] command) @ str ''*'')"

section \<open>Evaluation and auxiliary facts\<close>

lemmas string_defs = str_def strip_def lstrip_def rstrip_def lower_def is_ascii_def
  ascii_lower_def isspace_def whitespace_def latin1_lower_def latin1_lower_char_def

lemmas session_defs = init_def start_dictation_def clear_text_def undo_def redo_def
  load_from_file_def text_area_change_def save_to_history_def py_slice_to_def py_index_def
  str_def

subsection \<open>Substrings and stripping\<close>

lemma py_in_sublist: "py_in sub s = sublist sub s"
  by (induction s) (auto simp: sublist_Cons_right)

lemma sublist_strip: "sublist (strip s) s"
proof -
  have "sublist (rev (dropWhile isspace (rev (dropWhile isspace s)))) (dropWhile isspace s)"
    by (simp add: sublist_rev_left)
  then show ?thesis
    unfolding strip_def lstrip_def rstrip_def
    using sublist_order.order.trans sublist_dropWhile by blast
qed

lemma py_in_strip: "py_in sub (strip s) \<Longrightarrow> py_in sub s"
  unfolding py_in_sublist using sublist_strip sublist_order.order.trans by blast

lemma sublist_into_dropWhile:
  "sublist p s \<Longrightarrow> p \<noteq> [] \<Longrightarrow> \<not> P (hd p) \<Longrightarrow> sublist p (dropWhile P s)"
proof (induction s)
  case Nil
  then show ?case by simp
next
  case (Cons x xs)
  show ?case
  proof (cases "P x")
    case True
    have "\<not> prefix p (x # xs)"
      using Cons.prems True by (cases p) auto
    with Cons.prems have "sublist p xs"
      by (simp add: sublist_Cons_right)
    with Cons True show ?thesis by simp
  next
    case False
    with Cons.prems show ?thesis by simp
  qed
qed

lemma sublist_into_strip:
  assumes "sublist p s" "p \<noteq> []" "\<not> isspace (hd p)" "\<not> isspace (last p)"
  shows "sublist p (strip s)"
proof -
  have 1: "sublist p (dropWhile isspace s)"
    using assms by (simp add: sublist_into_dropWhile)
  have "sublist (rev p) (dropWhile isspace (rev (dropWhile isspace s)))"
    using 1 assms by (intro sublist_into_dropWhile) (simp_all add: hd_rev)
  then show ?thesis
    by (simp add: strip_def lstrip_def rstrip_def sublist_rev_right)
qed

lemma py_in_keyword_strip:
  assumes "keyword \<in> set command_keywords" "py_in keyword s"
  shows "py_in keyword (strip s)"
proof -
  from assms(1) have "keyword \<noteq> [] \<and> \<not> isspace (hd keyword) \<and> \<not> isspace (last keyword)"
    by (auto simp: command_keywords_def isspace_def whitespace_def str_def)
  with assms(2) show ?thesis
    unfolding py_in_sublist by (simp add: sublist_into_strip)
qed

lemma process_command_find:
  "process_command unicode_lower u =
     (case find (\<lambda>keyword. py_in keyword (strip (lower unicode_lower u))) command_keywords of
        Some keyword \<Rightarrow> branch keyword (strip (lower unicode_lower u))
      | None \<Rightarrow> strip (lower unicode_lower u))"
  by (simp add: process_command_def command_keywords_def branch_def Let_def str_def)

subsection \<open>The pointer invariant\<close>

lemma index_inv_init: "index_inv init"
  by (simp add: index_inv_def init_def)

lemma index_inv_bounds:
  "index_inv s \<Longrightarrow> - 1 \<le> current_index s \<and> current_index s < int (length (history s))"
  by (auto simp: index_inv_def split: if_splits)

lemma save_to_history_take:
  "- 1 \<le> current_index s \<Longrightarrow>
     save_to_history s =
       s\<lparr>history := take (nat (current_index s + 1)) (history s) @ [text_s s],
         current_index := current_index s + 1\<rparr>"
  by (simp add: save_to_history_def py_slice_to_def)

lemma text_s_save_to_history: "text_s (save_to_history s) = text_s s"
  by (simp add: save_to_history_def)

lemma index_inv_save_to_history:
  assumes "index_inv s"
  shows "index_inv (save_to_history (s\<lparr>text_s := t\<rparr>))"
proof -
  from assms have b: "- 1 \<le> current_index s" "current_index s < int (length (history s))"
    using index_inv_bounds by blast+
  then show ?thesis
    by (simp add: save_to_history_take index_inv_def min_def)
qed

lemma save_to_history_committed:
  assumes "index_inv s"
  shows "py_index (history (save_to_history (s\<lparr>text_s := t\<rparr>)))
           (current_index (save_to_history (s\<lparr>text_s := t\<rparr>))) = Inr t"
proof -
  from assms have b: "- 1 \<le> current_index s" "current_index s < int (length (history s))"
    using index_inv_bounds by blast+
  then have l: "length (take (nat (current_index s + 1)) (history s)) = nat (current_index s + 1)"
    by simp
  show ?thesis
    using b l by (simp add: save_to_history_take py_index_def nth_append min_def)
qed

lemma undo_enabled:
  assumes "index_inv s" "0 < current_index s"
  shows "undo s = Inr (s\<lparr>current_index := current_index s - 1,
                         text_s := history s ! nat (current_index s - 1)\<rparr>)"
  using index_inv_bounds [OF assms(1)] assms(2) by (simp add: undo_def py_index_def)

lemma redo_enabled:
  assumes "index_inv s" "current_index s < int (length (history s)) - 1"
  shows "redo s = Inr (s\<lparr>current_index := current_index s + 1,
                         text_s := history s ! nat (current_index s + 1)\<rparr>)"
  using index_inv_bounds [OF assms(1)] assms(2) by (simp add: redo_def py_index_def)

lemma undo_disabled: "\<not> 0 < current_index s \<Longrightarrow> undo s = Inr s"
  by (simp add: undo_def)

lemma redo_disabled: "\<not> current_index s < int (length (history s)) - 1 \<Longrightarrow> redo s = Inr s"
  by (simp add: redo_def)

lemma undo_returns: "index_inv s \<Longrightarrow> \<exists>s'. undo s = Inr s'"
  using undo_enabled undo_disabled by (cases "0 < current_index s") blast+

lemma redo_returns: "index_inv s \<Longrightarrow> \<exists>s'. redo s = Inr s'"
  using redo_enabled redo_disabled
  by (cases "current_index s < int (length (history s)) - 1") blast+

lemma handle_preserves:
  assumes "index_inv s"
  shows "index_inv (state_after (handle unicode_lower ev s)) \<and>
    committed s (state_after (handle unicode_lower ev s))"
proof (cases ev)
  case (Dictation result)
  show ?thesis
  proof (cases "result = []")
    case True
    with Dictation assms show ?thesis by (simp add: start_dictation_def committed_def)
  next
    case False
    with Dictation assms show ?thesis
      by (simp add: start_dictation_def committed_def index_inv_save_to_history
          save_to_history_committed text_s_save_to_history)
  qed
next
  case Clear
  then show ?thesis by (simp add: clear_text_def index_inv_def committed_def)
next
  case Undo
  show ?thesis
  proof (cases "0 < current_index s")
    case True
    with index_inv_bounds [OF assms] have "index_inv (s\<lparr>current_index := current_index s - 1,
        text_s := history s ! nat (current_index s - 1)\<rparr>)"
      by (auto simp: index_inv_def)
    with Undo True assms index_inv_bounds [OF assms] show ?thesis
      by (simp add: undo_enabled committed_def py_index_def)
  next
    case False
    with Undo assms show ?thesis by (simp add: undo_disabled committed_def)
  qed
next
  case Redo
  show ?thesis
  proof (cases "current_index s < int (length (history s)) - 1")
    case True
    with index_inv_bounds [OF assms] have "index_inv (s\<lparr>current_index := current_index s + 1,
        text_s := history s ! nat (current_index s + 1)\<rparr>)"
      by (auto simp: index_inv_def)
    with Redo True assms index_inv_bounds [OF assms] show ?thesis
      by (simp add: redo_enabled committed_def py_index_def)
  next
    case False
    with Redo assms show ?thesis by (simp add: redo_disabled committed_def)
  qed
next
  case (LoadFile answer)
  with assms show ?thesis
    by (cases answer) (simp_all add: load_from_file_def index_inv_def committed_def)
next
  case (TextArea text_area)
  with assms show ?thesis
    by (simp add: text_area_change_def committed_def index_inv_save_to_history
        save_to_history_committed text_s_save_to_history)
next
  case ReadOnly
  with assms show ?thesis by (simp add: committed_def)
next
  case (LibraryRaises e)
  with assms show ?thesis by (simp add: committed_def)
qed

lemma reachable_index_inv: "reachable unicode_lower s \<Longrightarrow> index_inv s"
proof (induction rule: reachable.induct)
  case reachable_init
  show ?case by (rule index_inv_init)
next
  case (reachable_step s ev)
  from handle_preserves [OF reachable_step.IH, of unicode_lower ev] show ?case by blast
qed

lemma reachable_run:
  "reachable unicode_lower s \<Longrightarrow> reachable unicode_lower (run unicode_lower s evs)"
  by (induction evs arbitrary: s) (simp_all add: reachable_step)

text \<open>
  What every reachable state satisfies: the pointer is \<open>- 1\<close> when the history is empty
  and lies in \<open>0 ..< length history\<close> otherwise; undo and redo never raise; and an
  operation that writes the history or moves the pointer leaves the text equal to
  \<open>history[current_index]\<close>.
\<close>

lemma pointer_invariant:
  assumes "reachable unicode_lower s"
  shows "index_inv s"
    and "\<exists>s'. undo s = Inr s'"
    and "\<exists>s'. redo s = Inr s'"
    and "index_inv (state_after (handle unicode_lower ev s))"
    and "(history (state_after (handle unicode_lower ev s)) \<noteq> history s \<or>
          current_index (state_after (handle unicode_lower ev s)) \<noteq> current_index s) \<and>
         history (state_after (handle unicode_lower ev s)) \<noteq> []
         \<longrightarrow> py_index (history (state_after (handle unicode_lower ev s)))
               (current_index (state_after (handle unicode_lower ev s))) =
             Inr (text_s (state_after (handle unicode_lower ev s)))"
proof -
  from assms show i: "index_inv s" by (rule reachable_index_inv)
  from i show "\<exists>s'. undo s = Inr s'" by (rule undo_returns)
  from i show "\<exists>s'. redo s = Inr s'" by (rule redo_returns)
  from handle_preserves [OF i, of unicode_lower ev]
  show "index_inv (state_after (handle unicode_lower ev s))" by blast
  from handle_preserves [OF i, of unicode_lower ev]
  have "committed s (state_after (handle unicode_lower ev s))" by blast
  then show "(history (state_after (handle unicode_lower ev s)) \<noteq> history s \<or>
          current_index (state_after (handle unicode_lower ev s)) \<noteq> current_index s) \<and>
         history (state_after (handle unicode_lower ev s)) \<noteq> []
         \<longrightarrow> py_index (history (state_after (handle unicode_lower ev s)))
               (current_index (state_after (handle unicode_lower ev s))) =
             Inr (text_s (state_after (handle unicode_lower ev s)))"
    unfolding committed_def .
qed

text \<open>
  Undo followed by redo: in a reachable state in which undo is enabled, undo returns a
  state in which redo is enabled, and redo then restores the history and the pointer
  and shows \<open>history[current_index]\<close>; the state is restored exactly when the text was
  that snapshot before.
\<close>

lemma undo_then_redo:
  "reachable unicode_lower s \<Longrightarrow> 0 < current_index s \<Longrightarrow>
     \<exists>s1 s2. undo s = Inr s1 \<and> current_index s1 < int (length (history s1)) - 1 \<and>
       redo s1 = Inr s2 \<and> history s2 = history s \<and> current_index s2 = current_index s \<and>
       py_index (history s) (current_index s) = Inr (text_s s2) \<and>
       (py_index (history s) (current_index s) = Inr (text_s s) \<longrightarrow> s2 = s)"
proof -
  assume r: "reachable unicode_lower s" and u: "0 < current_index s"
  from r have i: "index_inv s" by (rule reachable_index_inv)
  note b = index_inv_bounds [OF i]
  let ?s1 = "s\<lparr>current_index := current_index s - 1,
               text_s := history s ! nat (current_index s - 1)\<rparr>"
  let ?s2 = "s\<lparr>text_s := history s ! nat (current_index s)\<rparr>"
  have 1: "undo s = Inr ?s1" by (rule undo_enabled [OF i u])
  have 2: "current_index ?s1 < int (length (history ?s1)) - 1" using b by simp
  have "redo ?s1 = Inr ?s2"
    using b u by (simp add: redo_def py_index_def)
  moreover have "py_index (history s) (current_index s) = Inr (history s ! nat (current_index s))"
    using b u by (simp add: py_index_def)
  ultimately show ?thesis using 1 2 by auto
qed

section \<open>The history of the session\<close>

text \<open>
  C1. After every operation the text is meant to be \<open>history[current_index]\<close> whenever
  the history is not empty. The handlers of the dictation and of the text area call
  \<open>save_to_history\<close> after they assign the text, and clear resets the history with it;
  the handler of Load from File assigns the text and leaves the history as it was.
  After the edits \<open>a\<close> and \<open>b\<close> and the load of a file that holds \<open>X\<close> the history is
  not empty, the pointer selects \<open>b\<close>, and the text is \<open>X\<close>.
\<close>

theorem load_breaks_history_invariant:
  "run latin1_lower init
     [TextArea (str ''a''), TextArea (str ''b''), LoadFile (Contents (str ''X''))] =
     \<lparr>text_s = str ''X'', history = [str ''a'', str ''b''], current_index = 1\<rparr> \<and>
   py_index [str ''a'', str ''b''] 1 = Inr (str ''b'') \<and>
   str ''b'' \<noteq> str ''X''"
  by (simp add: session_defs)

text \<open>
  C2. In every reachable session state the text area handler, given a new text that
  differs from the current one, truncates the history to the positions
  \<open>0 .. current_index\<close>, appends the new text, advances the pointer by one and makes the
  new text current; given the current text it changes nothing. After such an edit the
  history has \<open>current_index + 2\<close> snapshots, so whatever an undo had left behind the
  pointer is gone, and redo does nothing.
\<close>

theorem apply_edit:
  "reachable unicode_lower s \<Longrightarrow>
     text_area_change new_text s =
       (if new_text \<noteq> text_s s
        then s\<lparr>text_s := new_text,
               history := take (nat (current_index s + 1)) (history s) @ [new_text],
               current_index := current_index s + 1\<rparr>
        else s) \<and>
     (new_text \<noteq> text_s s \<longrightarrow>
        int (length (history (text_area_change new_text s))) = current_index s + 2 \<and>
        redo (text_area_change new_text s) = Inr (text_area_change new_text s))"
proof -
  assume "reachable unicode_lower s"
  then have b: "- 1 \<le> current_index s" "current_index s < int (length (history s))"
    using reachable_index_inv index_inv_bounds by blast+
  have e: "text_area_change new_text s =
       (if new_text \<noteq> text_s s
        then s\<lparr>text_s := new_text,
               history := take (nat (current_index s + 1)) (history s) @ [new_text],
               current_index := current_index s + 1\<rparr>
        else s)"
    using b by (auto simp add: text_area_change_def save_to_history_take)
  have "int (length (history (text_area_change new_text s))) = current_index s + 2"
    if "new_text \<noteq> text_s s"
    unfolding e using that b by (auto simp: min_def)
  moreover have "redo (text_area_change new_text s) = Inr (text_area_change new_text s)"
    if "new_text \<noteq> text_s s"
    unfolding e using that b by (auto simp: redo_def min_def)
  ultimately show ?thesis using e by blast
qed

text \<open>The edits \<open>a\<close> and \<open>b\<close>, an undo, then the edit \<open>c\<close>: the snapshot \<open>b\<close> is discarded.\<close>

theorem apply_edit_witness:
  "text_area_change (str ''c'')
     (run latin1_lower init [TextArea (str ''a''), TextArea (str ''b''), Undo]) =
     \<lparr>text_s = str ''c'', history = [str ''a'', str ''c''], current_index = 1\<rparr> \<and>
   redo \<lparr>text_s = str ''c'', history = [str ''a'', str ''c''], current_index = 1\<rparr> =
     Inr \<lparr>text_s = str ''c'', history = [str ''a'', str ''c''], current_index = 1\<rparr>"
proof -
  let ?s = "run latin1_lower init [TextArea (str ''a''), TextArea (str ''b''), Undo]"
  have r: "reachable latin1_lower ?s" by (rule reachable_run [OF reachable_init])
  have s: "?s = \<lparr>text_s = str ''a'', history = [str ''a'', str ''b''], current_index = 0\<rparr>"
    by (simp add: session_defs)
  from apply_edit [OF r, of "str ''c''"]
  have a: "text_area_change (str ''c'') ?s =
       (if str ''c'' \<noteq> text_s ?s
        then ?s\<lparr>text_s := str ''c'',
               history := take (nat (current_index ?s + 1)) (history ?s) @ [str ''c''],
               current_index := current_index ?s + 1\<rparr>
        else ?s)"
    and b: "str ''c'' \<noteq> text_s ?s \<longrightarrow>
        redo (text_area_change (str ''c'') ?s) = Inr (text_area_change (str ''c'') ?s)"
    by blast+
  have n: "str ''c'' \<noteq> str ''a''" by (simp add: str_def)
  have t: "text_area_change (str ''c'') ?s =
      \<lparr>text_s = str ''c'', history = [str ''a'', str ''c''], current_index = 1\<rparr>"
    unfolding a unfolding s using n by simp
  from b n have "redo (text_area_change (str ''c'') ?s) = Inr (text_area_change (str ''c'') ?s)"
    unfolding s by simp
  with t show ?thesis by simp
qed

text \<open>
  C3. Undo followed by redo is meant to bring back the text that was there before the
  undo. After a load from file it does not, for the same reason as in C1: the handler
  of Load from File assigns the text and does not call \<open>save_to_history\<close>, so the
  loaded text is in no snapshot. After the edits \<open>a\<close> and \<open>b\<close> and the load of a file
  that holds \<open>X\<close>, undo is enabled, redo is enabled after it, and the two end on \<open>b\<close>:
  \<open>X\<close> is lost.
\<close>

theorem undo_redo_after_load:
  "run latin1_lower init
     [TextArea (str ''a''), TextArea (str ''b''), LoadFile (Contents (str ''X''))] =
     \<lparr>text_s = str ''X'', history = [str ''a'', str ''b''], current_index = 1\<rparr> \<and>
   undo \<lparr>text_s = str ''X'', history = [str ''a'', str ''b''], current_index = 1\<rparr> =
     Inr \<lparr>text_s = str ''a'', history = [str ''a'', str ''b''], current_index = 0\<rparr> \<and>
   redo \<lparr>text_s = str ''a'', history = [str ''a'', str ''b''], current_index = 0\<rparr> =
     Inr \<lparr>text_s = str ''b'', history = [str ''a'', str ''b''], current_index = 1\<rparr> \<and>
   str ''b'' \<noteq> str ''X''"
  by (simp add: session_defs)

text \<open>
  C7. Clear resets the text to the empty string, the history to the empty list and the
  pointer to \<open>- 1\<close>, whatever the state; in the state it returns, undo and redo change
  nothing.
\<close>

theorem clear_resets:
  "text_s (clear_text s) = [] \<and> history (clear_text s) = [] \<and>
   current_index (clear_text s) = - 1 \<and>
   undo (clear_text s) = Inr (clear_text s) \<and> redo (clear_text s) = Inr (clear_text s)"
  by (simp add: clear_text_def undo_def redo_def)

theorem clear_resets_witness:
  "clear_text \<lparr>text_s = str ''ab'', history = [str ''a'', str ''ab''], current_index = 1\<rparr> =
     \<lparr>text_s = [], history = [], current_index = - 1\<rparr> \<and>
   undo \<lparr>text_s = [], history = [], current_index = - 1\<rparr> =
     Inr \<lparr>text_s = [], history = [], current_index = - 1\<rparr> \<and>
   redo \<lparr>text_s = [], history = [], current_index = - 1\<rparr> =
     Inr \<lparr>text_s = [], history = [], current_index = - 1\<rparr>"
proof -
  let ?s = "\<lparr>text_s = str ''ab'', history = [str ''a'', str ''ab''], current_index = 1\<rparr>"
  have c: "clear_text ?s = \<lparr>text_s = [], history = [], current_index = - 1\<rparr>"
    by (simp add: clear_text_def)
  from clear_resets [of ?s] show ?thesis unfolding c by simp
qed

text \<open>
  C10. In every reachable session state, when dictation recognises a non-empty utterance
  whose transform is the empty string (any utterance that contains \<open>delete\<close> and not
  \<open>add\<close> is one), the text stays as it is and a snapshot is committed all the same: the
  history is truncated to the positions \<open>0 .. current_index\<close>, the text is appended and the
  pointer advances by one. When the text was the snapshot under the pointer, the new
  snapshot repeats the one before it.
\<close>

theorem empty_transform_commits:
  "reachable unicode_lower s \<Longrightarrow> result \<noteq> [] \<Longrightarrow>
     (py_in (str ''delete'') (lower unicode_lower result) \<and>
      \<not> py_in (str ''add'') (lower unicode_lower result)
        \<longrightarrow> process_command unicode_lower result = []) \<and>
     (process_command unicode_lower result = [] \<longrightarrow>
        text_s (start_dictation unicode_lower result s) = text_s s \<and>
        history (start_dictation unicode_lower result s) =
          take (nat (current_index s + 1)) (history s) @ [text_s s] \<and>
        current_index (start_dictation unicode_lower result s) = current_index s + 1 \<and>
        py_index (history (start_dictation unicode_lower result s)) (current_index s + 1) =
          Inr (text_s s) \<and>
        (py_index (history s) (current_index s) = Inr (text_s s) \<longrightarrow>
           py_index (history (start_dictation unicode_lower result s)) (current_index s) =
             Inr (text_s s)))"
proof -
  assume r: "reachable unicode_lower s" and n: "result \<noteq> []"
  from r have i: "index_inv s" by (rule reachable_index_inv)
  note b = index_inv_bounds [OF i]
  have k: "process_command unicode_lower result = []"
    if "py_in (str ''delete'') (lower unicode_lower result)"
      "\<not> py_in (str ''add'') (lower unicode_lower result)"
  proof -
    from that(1) have "py_in (str ''delete'') (strip (lower unicode_lower result))"
      by (intro py_in_keyword_strip) (simp_all add: command_keywords_def)
    moreover from that(2) have "\<not> py_in (str ''add'') (strip (lower unicode_lower result))"
      using py_in_strip by blast
    ultimately show ?thesis by (simp add: process_command_def)
  qed
  have l: "length (take (nat (current_index s + 1)) (history s)) = nat (current_index s + 1)"
    using b by (auto simp: min_def)
  have 1: "py_index (take (nat (current_index s + 1)) (history s) @ [text_s s])
      (current_index s + 1) = Inr (text_s s)"
    using b l by (simp add: py_index_def nth_append)
  have 2: "py_index (take (nat (current_index s + 1)) (history s) @ [text_s s])
      (current_index s) = Inr (text_s s)"
    if "py_index (history s) (current_index s) = Inr (text_s s)"
  proof -
    from that i have 0: "0 \<le> current_index s"
      by (auto simp: py_index_def index_inv_def split: if_splits)
    with that b have "history s ! nat (current_index s) = text_s s"
      by (simp add: py_index_def)
    with 0 b l show ?thesis
      by (simp add: py_index_def nth_append)
  qed
  have "start_dictation unicode_lower result s =
      s\<lparr>history := take (nat (current_index s + 1)) (history s) @ [text_s s],
        current_index := current_index s + 1\<rparr>"
    if "process_command unicode_lower result = []"
    using n that b by (simp add: start_dictation_def save_to_history_take)
  with 1 2 k show ?thesis by simp
qed

text \<open>After the edit \<open>a\<close>, the utterance \<open>Delete that\<close> commits \<open>a\<close> a second time.\<close>

theorem empty_transform_commits_witness:
  "process_command latin1_lower (str ''Delete that'') = [] \<and>
   start_dictation latin1_lower (str ''Delete that'')
     (run latin1_lower init [TextArea (str ''a'')]) =
     \<lparr>text_s = str ''a'', history = [str ''a'', str ''a''], current_index = 1\<rparr>"
proof -
  let ?s = "run latin1_lower init [TextArea (str ''a'')]"
  let ?d = "start_dictation latin1_lower (str ''Delete that'') ?s"
  have r: "reachable latin1_lower ?s" by (rule reachable_run [OF reachable_init])
  have s: "?s = \<lparr>text_s = str ''a'', history = [str ''a''], current_index = 0\<rparr>"
    by (simp add: session_defs)
  have n: "str ''Delete that'' \<noteq> []" by (simp add: str_def)
  have l: "lower latin1_lower (str ''Delete that'') = str ''delete that''"
    by (simp add: string_defs)
  have h: "py_in (str ''delete'') (lower latin1_lower (str ''Delete that'')) \<and>
      \<not> py_in (str ''add'') (lower latin1_lower (str ''Delete that''))"
    unfolding l by (simp add: str_def)
  from empty_transform_commits [OF r n] h
  have p: "process_command latin1_lower (str ''Delete that'') = []" by blast
  with empty_transform_commits [OF r n]
  have "text_s ?d = text_s ?s"
    and "history ?d = take (nat (current_index ?s + 1)) (history ?s) @ [text_s ?s]"
    and "current_index ?d = current_index ?s + 1"
    by blast+
  then have "text_s ?d = str ''a''" "history ?d = [str ''a'', str ''a'']" "current_index ?d = 1"
    unfolding s by simp_all
  then have "?d = \<lparr>text_s = str ''a'', history = [str ''a'', str ''a''], current_index = 1\<rparr>"
    by (cases ?d) simp
  with p show ?thesis by simp
qed

text \<open>
  C10 does not hold in every session state. In a fresh session the utterance \<open>delete\<close>
  commits the first snapshot, which repeats nothing. After the edit \<open>a\<close> and the load of
  a file that holds \<open>x\<close>, it commits \<open>x\<close> after \<open>a\<close>. And the utterance \<open>add delete\<close>
  contains \<open>delete\<close>, yet its transform is \<open>delete\<close>, not the empty string.
\<close>

theorem empty_transform_counterexample:
  "process_command latin1_lower (str ''delete'') = [] \<and>
   start_dictation latin1_lower (str ''delete'') init =
     \<lparr>text_s = [], history = [[]], current_index = 0\<rparr> \<and>
   run latin1_lower init [TextArea (str ''a''), LoadFile (Contents (str ''x''))] =
     \<lparr>text_s = str ''x'', history = [str ''a''], current_index = 0\<rparr> \<and>
   start_dictation latin1_lower (str ''delete'')
     \<lparr>text_s = str ''x'', history = [str ''a''], current_index = 0\<rparr> =
     \<lparr>text_s = str ''x'', history = [str ''a'', str ''x''], current_index = 1\<rparr> \<and>
   str ''a'' \<noteq> str ''x'' \<and>
   py_in (str ''delete'') (lower latin1_lower (str ''add delete'')) \<and>
   process_command latin1_lower (str ''add delete'') = str ''delete''"
  by (simp add: session_defs process_command_def string_defs)

section \<open>The voice command transform, claim by claim\<close>

text \<open>
  C4. The transform applies the branch of the first keyword, in the order add, delete,
  html, php, bold, italic, that occurs in the lower-cased and stripped utterance, and
  no other: keywords later in the order have no effect on the choice. The utterance
  \<open>add bold hello\<close> takes the branch of \<open>add\<close> and gives \<open>bold hello\<close>.
\<close>

theorem first_match_wins:
  "(i < length command_keywords \<and>
    py_in (command_keywords ! i) (strip (lower unicode_lower u)) \<and>
    (\<forall>j<i. \<not> py_in (command_keywords ! j) (strip (lower unicode_lower u)))
      \<longrightarrow> process_command unicode_lower u =
            branch (command_keywords ! i) (strip (lower unicode_lower u))) \<and>
   process_command unicode_lower (str ''add bold hello'') = str ''bold hello''"
proof -
  have "process_command unicode_lower u =
      branch (command_keywords ! i) (strip (lower unicode_lower u))"
    if "i < length command_keywords"
      "py_in (command_keywords ! i) (strip (lower unicode_lower u))"
      "\<forall>j<i. \<not> py_in (command_keywords ! j) (strip (lower unicode_lower u))"
  proof -
    have "find (\<lambda>keyword. py_in keyword (strip (lower unicode_lower u))) command_keywords =
        Some (command_keywords ! i)"
      unfolding find_Some_iff using that by blast
    then show ?thesis by (simp add: process_command_find)
  qed
  moreover have "process_command unicode_lower (str ''add bold hello'') = str ''bold hello''"
    by (simp add: process_command_def string_defs)
  ultimately show ?thesis by blast
qed

text \<open>
  \<open>Bold italic\<close> followed by a capital E with acute accent (\<open>U+00C9\<close>) holds two
  keywords; the branch of \<open>bold\<close> is taken, and the accented letter comes back small
  (\<open>U+00E9\<close>).
\<close>

theorem first_match_wins_witness:
  "py_in (str ''bold'') (strip (lower latin1_lower (str ''Bold italic '' @ [0xC9]))) \<and>
   py_in (str ''italic'') (strip (lower latin1_lower (str ''Bold italic '' @ [0xC9]))) \<and>
   process_command latin1_lower (str ''Bold italic '' @ [0xC9]) =
     str ''**italic '' @ [0xE9] @ str ''**''"
proof -
  let ?u = "str ''Bold italic '' @ [0xC9]"
  let ?c = "strip (lower latin1_lower ?u)"
  have c: "?c = str ''bold italic '' @ [0xE9]" by (simp add: string_defs)
  have 1: "(4::nat) < length command_keywords" by (simp add: command_keywords_def)
  have 2: "py_in (command_keywords ! 4) ?c"
    unfolding c by (simp add: command_keywords_def str_def)
  have 3: "\<forall>j<4::nat. \<not> py_in (command_keywords ! j) ?c"
  proof (intro allI impI)
    fix j :: nat assume "j < 4"
    then consider "j = 0" | "j = 1" | "j = 2" | "j = 3" by linarith
    then show "\<not> py_in (command_keywords ! j) ?c"
      unfolding c by cases (simp_all add: command_keywords_def str_def)
  qed
  from first_match_wins [of 4 latin1_lower ?u] 1 2 3
  have "process_command latin1_lower ?u = branch (command_keywords ! 4) ?c" by blast
  then have "process_command latin1_lower ?u = str ''**italic '' @ [0xE9] @ str ''**''"
    unfolding c by (simp add: command_keywords_def branch_def string_defs)
  moreover have "py_in (str ''bold'') ?c" "py_in (str ''italic'') ?c"
    unfolding c by (simp_all add: str_def)
  ultimately show ?thesis by blast
qed

text \<open>
  C5. For an utterance that contains none of the six keywords, whatever the case of its
  letters, the transform returns the utterance in lower case and stripped of the
  white space around it.
\<close>

theorem no_keyword_normalised:
  "\<forall>keyword \<in> set command_keywords. \<not> py_in keyword (lower unicode_lower u) \<Longrightarrow>
     process_command unicode_lower u = strip (lower unicode_lower u)"
proof -
  assume "\<forall>keyword \<in> set command_keywords. \<not> py_in keyword (lower unicode_lower u)"
  then have "\<forall>keyword \<in> set command_keywords.
      \<not> py_in keyword (strip (lower unicode_lower u))"
    using py_in_strip by blast
  then have "find (\<lambda>keyword. py_in keyword (strip (lower unicode_lower u))) command_keywords =
      None"
    by (simp add: find_None_iff)
  then show ?thesis by (simp add: process_command_find)
qed

text \<open>
  A no-break space (\<open>U+00A0\<close>), \<open>U+00C9\<close>, \<open>cole\<close> and a space: the capital comes back
  small and both spaces are stripped.
\<close>

theorem no_keyword_normalised_witness:
  "\<not> py_in (str ''add'') (lower latin1_lower ([0xA0, 0xC9] @ str ''cole '')) \<and>
   \<not> py_in (str ''delete'') (lower latin1_lower ([0xA0, 0xC9] @ str ''cole '')) \<and>
   \<not> py_in (str ''html'') (lower latin1_lower ([0xA0, 0xC9] @ str ''cole '')) \<and>
   \<not> py_in (str ''php'') (lower latin1_lower ([0xA0, 0xC9] @ str ''cole '')) \<and>
   \<not> py_in (str ''bold'') (lower latin1_lower ([0xA0, 0xC9] @ str ''cole '')) \<and>
   \<not> py_in (str ''italic'') (lower latin1_lower ([0xA0, 0xC9] @ str ''cole '')) \<and>
   process_command latin1_lower ([0xA0, 0xC9] @ str ''cole '') = [0xE9] @ str ''cole''"
proof -
  let ?u = "[0xA0, 0xC9] @ str ''cole ''"
  have l: "lower latin1_lower ?u = [0xA0, 0xE9] @ str ''cole ''" by (simp add: string_defs)
  have h: "\<forall>keyword \<in> set command_keywords. \<not> py_in keyword (lower latin1_lower ?u)"
    unfolding l by (simp add: command_keywords_def str_def)
  from no_keyword_normalised [OF h]
  have "process_command latin1_lower ?u = strip (lower latin1_lower ?u)" .
  also have "\<dots> = [0xE9] @ str ''cole''" by (simp add: string_defs)
  finally show ?thesis using h by (simp add: command_keywords_def)
qed

text \<open>
  C5 as it stands fails: \<open>Hello\<close>, with a space on each side, contains no keyword and
  comes back as \<open>hello\<close>, not unchanged.
\<close>

theorem no_keyword_counterexample:
  "\<not> py_in (str ''add'') (lower latin1_lower (str '' Hello '')) \<and>
   \<not> py_in (str ''delete'') (lower latin1_lower (str '' Hello '')) \<and>
   \<not> py_in (str ''html'') (lower latin1_lower (str '' Hello '')) \<and>
   \<not> py_in (str ''php'') (lower latin1_lower (str '' Hello '')) \<and>
   \<not> py_in (str ''bold'') (lower latin1_lower (str '' Hello '')) \<and>
   \<not> py_in (str ''italic'') (lower latin1_lower (str '' Hello '')) \<and>
   process_command latin1_lower (str '' Hello '') = str ''hello'' \<and>
   process_command latin1_lower (str '' Hello '') \<noteq> str '' Hello ''"
  by (simp add: process_command_def string_defs)

text \<open>
  C6. For an utterance that contains \<open>add\<close>, whatever the case of its letters, the
  transform puts the utterance in lower case, strips it, removes every occurrence of
  \<open>add\<close> from it (inside longer words too) and returns what is left, stripped of the
  white space around it.
\<close>

theorem add_branch:
  "py_in (str ''add'') (lower unicode_lower u) \<Longrightarrow>
     process_command unicode_lower u =
       strip (replace (str ''add'') [] (strip (lower unicode_lower u)))"
proof -
  assume "py_in (str ''add'') (lower unicode_lower u)"
  then have "py_in (str ''add'') (strip (lower unicode_lower u))"
    by (intro py_in_keyword_strip) (simp_all add: command_keywords_def)
  then show ?thesis by (simp add: process_command_def)
qed

text \<open>
  \<open>ADD\<close>, a no-break space and \<open>U+00C9\<close>: what is left is the small letter \<open>U+00E9\<close>,
  without the space.
\<close>

theorem add_branch_witness:
  "py_in (str ''add'') (lower latin1_lower (str ''ADD'' @ [0xA0, 0xC9])) \<and>
   process_command latin1_lower (str ''ADD'' @ [0xA0, 0xC9]) = [0xE9]"
proof -
  let ?u = "str ''ADD'' @ [0xA0, 0xC9]"
  have l: "lower latin1_lower ?u = str ''add'' @ [0xA0, 0xE9]" by (simp add: string_defs)
  have h: "py_in (str ''add'') (lower latin1_lower ?u)" unfolding l by (simp add: str_def)
  from add_branch [OF h]
  have "process_command latin1_lower ?u =
      strip (replace (str ''add'') [] (strip (lower latin1_lower ?u)))" .
  also have "\<dots> = [0xE9]" by (simp add: string_defs)
  finally show ?thesis using h by blast
qed

text \<open>
  C6 as it stands fails: what is left of \<open>add Hi\<close> without the word \<open>add\<close> is \<open>Hi\<close>,
  and the transform returns \<open>hi\<close>; of \<open>add address\<close> it returns \<open>ress\<close>.
\<close>

theorem add_branch_counterexample:
  "py_in (str ''add'') (lower latin1_lower (str ''add Hi'')) \<and>
   process_command latin1_lower (str ''add Hi'') = str ''hi'' \<and>
   process_command latin1_lower (str ''add Hi'') \<noteq> str ''Hi'' \<and>
   process_command latin1_lower (str ''add address'') = str ''ress''"
  by (simp add: process_command_def string_defs)

section \<open>Sentiment and translation\<close>

text \<open>
  C8. The tone that \<open>analyze_sentiment\<close> returns is the polarity of the sentiment library
  cut at plus and minus the float \<open>0.1\<close>: Positive above, Negative below, Neutral in
  between, both bounds included. The float is within \<open>2\<close> to the \<open>- 56\<close> of one tenth. A
  polarity of \<open>0.05\<close> is Neutral, of \<open>0.5\<close> Positive, of \<open>- 0.3\<close> Negative, each with a
  margin of a thousandth, which covers the floats nearest to these numbers.
\<close>

theorem sentiment_tone:
  "analyze_sentiment sentiment txt = (polarity, subjectivity, label) \<Longrightarrow>
     polarity = fst (sentiment txt) \<and>
     (label = Positive \<longleftrightarrow> float_0_1 < polarity) \<and>
     (label = Negative \<longleftrightarrow> polarity < - float_0_1) \<and>
     (label = Neutral \<longleftrightarrow> - float_0_1 \<le> polarity \<and> polarity \<le> float_0_1) \<and>
     \<bar>float_0_1 - 1 / 10\<bar> < 1 / 2 ^ 56 \<and>
     (\<bar>polarity - 5 / 100\<bar> \<le> 1 / 1000 \<longrightarrow> label = Neutral) \<and>
     (\<bar>polarity - 5 / 10\<bar> \<le> 1 / 1000 \<longrightarrow> label = Positive) \<and>
     (\<bar>polarity + 3 / 10\<bar> \<le> 1 / 1000 \<longrightarrow> label = Negative)"
proof -
  assume "analyze_sentiment sentiment txt = (polarity, subjectivity, label)"
  then have p: "polarity = fst (sentiment txt)" and l: "label = tone_of polarity"
    by (auto simp: analyze_sentiment_def Let_def)
  have f: "float_0_1 > 0" "\<bar>float_0_1 - 1 / 10\<bar> < 1 / 2 ^ 56" "float_0_1 < 101 / 1000"
    "float_0_1 > 99 / 1000"
    by (simp_all add: float_0_1_def)
  have 1: "(label = Positive \<longleftrightarrow> float_0_1 < polarity)"
    unfolding l tone_of_def by simp
  have 2: "(label = Negative \<longleftrightarrow> polarity < - float_0_1)"
    unfolding l tone_of_def using f(1) by auto
  have 3: "(label = Neutral \<longleftrightarrow> - float_0_1 \<le> polarity \<and> polarity \<le> float_0_1)"
    unfolding l tone_of_def by auto
  have 4: "\<bar>polarity - 5 / 100\<bar> \<le> 1 / 1000 \<longrightarrow> label = Neutral"
  proof
    assume "\<bar>polarity - 5 / 100\<bar> \<le> 1 / 1000"
    with f(3,4) have "- float_0_1 \<le> polarity" "polarity \<le> float_0_1" by linarith+
    then show "label = Neutral" unfolding 3 by simp
  qed
  have 5: "\<bar>polarity - 5 / 10\<bar> \<le> 1 / 1000 \<longrightarrow> label = Positive"
  proof
    assume "\<bar>polarity - 5 / 10\<bar> \<le> 1 / 1000"
    with f(3,4) have "float_0_1 < polarity" by linarith
    then show "label = Positive" unfolding 1 by simp
  qed
  have 6: "\<bar>polarity + 3 / 10\<bar> \<le> 1 / 1000 \<longrightarrow> label = Negative"
  proof
    assume "\<bar>polarity + 3 / 10\<bar> \<le> 1 / 1000"
    with f(3,4) have "polarity < - float_0_1" by linarith
    then show "label = Negative" unfolding 2 by simp
  qed
  from p 1 2 3 4 5 6 f(2) show ?thesis by blast
qed

theorem sentiment_tone_witness:
  "analyze_sentiment (\<lambda>t. (5 / 100, 6 / 10)) (str ''fine'') = (5 / 100, 6 / 10, Neutral) \<and>
   analyze_sentiment (\<lambda>t. (5 / 10, 6 / 10)) (str ''great'') = (5 / 10, 6 / 10, Positive) \<and>
   analyze_sentiment (\<lambda>t. (- 3 / 10, 6 / 10)) (str ''bad'') = (- 3 / 10, 6 / 10, Negative)"
proof -
  have a: "analyze_sentiment (\<lambda>t. (5 / 100, 6 / 10)) (str ''fine'') =
      (5 / 100, 6 / 10, tone_of (5 / 100))"
    by (simp add: analyze_sentiment_def Let_def)
  have b: "analyze_sentiment (\<lambda>t. (5 / 10, 6 / 10)) (str ''great'') =
      (5 / 10, 6 / 10, tone_of (5 / 10))"
    by (simp add: analyze_sentiment_def Let_def)
  have c: "analyze_sentiment (\<lambda>t. (- 3 / 10, 6 / 10)) (str ''bad'') =
      (- 3 / 10, 6 / 10, tone_of (- 3 / 10))"
    by (simp add: analyze_sentiment_def Let_def)
  from sentiment_tone [OF a] have "tone_of (5 / 100) = Neutral" by simp
  moreover from sentiment_tone [OF b] have "tone_of (5 / 10) = Positive" by simp
  moreover from sentiment_tone [OF c] have "tone_of (- 3 / 10) = Negative" by simp
  ultimately show ?thesis using a b c by simp
qed

text \<open>
  C9. When the translator raises an exception, \<open>translate_text\<close> returns the text it was
  given, unchanged, as an ordinary result: nothing is raised to the caller.
\<close>

theorem translate_fail_soft:
  "translate txt dest_lang_code = Inl (Exception e) \<Longrightarrow>
     translate_text translate txt dest_lang_code = Inr txt"
  by (simp add: translate_text_def)

theorem translate_fail_soft_witness:
  "translate_text (\<lambda>t d. Inl (Exception (str ''timed out''))) (str ''hello'') (str ''fr'') =
     Inr (str ''hello'')"
  by (rule translate_fail_soft [of _ _ _ "str ''timed out''"]) simp

end
